theory Spec2Isabelle
  imports Main "HOL-Library.Word" "HOL-Library.Monad_Syntax"
begin

section \<open>The ABI sanity check \<^verbatim>\<open>c_sanity_check.c\<close>\<close>

text \<open>
  The translation unit consists of macro definitions, the type declarations of the
  foreign interface, four dummy callbacks, five compile-time size assertions and a
  \<^verbatim>\<open>main\<close> that prints a five-line report. Everything the unit prints goes through
  \<^verbatim>\<open>printf\<close>; the standard output stream is modelled as the text written so far,
  and every write to it succeeds. The functions of the foreign interface are declared
  \<^verbatim>\<open>extern\<close> and never called.
\<close>

subsection \<open>Macros and integer types\<close>

type_synonym c_int = "32 word"
type_synonym uint64_t = "64 word"
type_synonym unsigned_long_long = "64 word"
type_synonym size_t = nat
type_synonym address = nat
type_synonym stdout = string

text \<open>\<^verbatim>\<open>#define LINE "\n"\<close>\<close>

definition LINE :: string where
  "LINE = [CHR 0x0A]"

definition MIHOMO_OK :: c_int where "MIHOMO_OK = 0"
definition MIHOMO_ERR_INIT :: c_int where "MIHOMO_ERR_INIT = 1"
definition MIHOMO_ERR_INVALID_ARG :: c_int where "MIHOMO_ERR_INVALID_ARG = 2"
definition MIHOMO_ERR_RUNTIME :: c_int where "MIHOMO_ERR_RUNTIME = 3"
definition MIHOMO_ERR_NOT_INITIALIZED :: c_int where "MIHOMO_ERR_NOT_INITIALIZED = 4"

type_synonym MihomoCoreState = c_int

definition MIHOMO_STATE_STOPPED :: MihomoCoreState where "MIHOMO_STATE_STOPPED = 0"
definition MIHOMO_STATE_RUNNING :: MihomoCoreState where "MIHOMO_STATE_RUNNING = 2"

subsection \<open>The conversions of \<^verbatim>\<open>printf\<close> that the unit uses\<close>

definition digit :: "nat \<Rightarrow> char" where
  "digit d = ''0123456789abcdef'' ! d"

function dec :: "nat \<Rightarrow> string" where
  "dec n = (if n < 10 then [digit n] else dec (n div 10) @ [digit (n mod 10)])"
  by pat_completeness auto
termination
  by (relation "measure id") auto

declare dec.simps [simp del]

text \<open>\<^verbatim>\<open>%d\<close>: a signed decimal, with a minus sign for negative values.\<close>

definition fmt_d :: "c_int \<Rightarrow> string" where
  "fmt_d i = (if sint i < 0 then CHR ''-'' # dec (nat (- sint i)) else dec (nat (sint i)))"

text \<open>\<^verbatim>\<open>%s\<close>: the bytes of the array up to the first NUL. An array without NUL makes
  \<^verbatim>\<open>printf\<close> read past its end, which is undefined.\<close>

definition fmt_s :: "string \<Rightarrow> string option" where
  "fmt_s buf = (if CHR 0x00 \<in> set buf then Some (takeWhile (\<lambda>c. c \<noteq> CHR 0x00) buf) else None)"

datatype arg =
    Arg_int c_int
  | Arg_ull unsigned_long_long
  | Arg_size size_t
  | Arg_str string
  | Arg_ptr address

text \<open>One conversion specification, applied to the next argument. A conversion whose
  argument is missing or of another type is undefined behaviour (\<open>None\<close>). How \<^verbatim>\<open>%p\<close>
  renders a pointer is implementation-defined: it is the parameter \<open>P\<close>.\<close>

datatype conversion = Conv_d | Conv_llu | Conv_zu | Conv_s | Conv_p

fun convert :: "(address \<Rightarrow> string) \<Rightarrow> conversion \<Rightarrow> arg list \<Rightarrow> (string \<times> arg list) option" where
  "convert P cv [] = None"
| "convert P cv (a # args) =
     (case (cv, a) of
        (Conv_d, Arg_int i) \<Rightarrow> Some (fmt_d i, args)
      | (Conv_llu, Arg_ull u) \<Rightarrow> Some (dec (unat u), args)
      | (Conv_zu, Arg_size n) \<Rightarrow> Some (dec n, args)
      | (Conv_s, Arg_str buf) \<Rightarrow> map_option (\<lambda>s. (s, args)) (fmt_s buf)
      | (Conv_p, Arg_ptr p) \<Rightarrow> Some (P p, args)
      | _ \<Rightarrow> None)"

text \<open>The scanner's position inside a conversion specification. Only the five
  specifications that occur in the unit are interpreted; a format with any other one,
  or ending inside one, has no defined result here.\<close>

datatype scan = Plain | Percent | Percent_l | Percent_ll | Percent_z

fun format :: "(address \<Rightarrow> string) \<Rightarrow> scan \<Rightarrow> string \<Rightarrow> arg list \<Rightarrow> string option" where
  "format P st [] args = (if st = Plain then Some [] else None)"
| "format P Plain (c # fmt) args =
     (if c = CHR ''%'' then format P Percent fmt args
      else map_option ((#) c) (format P Plain fmt args))"
| "format P Percent (c # fmt) args =
     (if c = CHR ''d'' then
        (case convert P Conv_d args of None \<Rightarrow> None
         | Some (s, args') \<Rightarrow> map_option ((@) s) (format P Plain fmt args'))
      else if c = CHR ''s'' then
        (case convert P Conv_s args of None \<Rightarrow> None
         | Some (s, args') \<Rightarrow> map_option ((@) s) (format P Plain fmt args'))
      else if c = CHR ''p'' then
        (case convert P Conv_p args of None \<Rightarrow> None
         | Some (s, args') \<Rightarrow> map_option ((@) s) (format P Plain fmt args'))
      else if c = CHR ''l'' then format P Percent_l fmt args
      else if c = CHR ''z'' then format P Percent_z fmt args
      else None)"
| "format P Percent_l (c # fmt) args =
     (if c = CHR ''l'' then format P Percent_ll fmt args else None)"
| "format P Percent_ll (c # fmt) args =
     (if c = CHR ''u'' then
        (case convert P Conv_llu args of None \<Rightarrow> None
         | Some (s, args') \<Rightarrow> map_option ((@) s) (format P Plain fmt args'))
      else None)"
| "format P Percent_z (c # fmt) args =
     (if c = CHR ''u'' then
        (case convert P Conv_zu args of None \<Rightarrow> None
         | Some (s, args') \<Rightarrow> map_option ((@) s) (format P Plain fmt args'))
      else None)"

definition printf :: "(address \<Rightarrow> string) \<Rightarrow> string \<Rightarrow> arg list \<Rightarrow> string option" where
  "printf P fmt args = format P Plain fmt args"

text \<open>\<^verbatim>\<open>#define OUT(...) do { printf(__VA_ARGS__); } while (0)\<close>\<close>

definition OUT :: "(address \<Rightarrow> string) \<Rightarrow> string \<Rightarrow> arg list \<Rightarrow> stdout \<Rightarrow> stdout option" where
  "OUT P fmt args out = map_option (\<lambda>s. out @ s) (printf P fmt args)"

subsection \<open>The structures that cross the boundary\<close>

record MihomoTrafficSample =
  tx_timestamp_ms :: uint64_t
  up :: uint64_t
  down :: uint64_t

record MihomoMemorySample =
  mem_timestamp_ms :: uint64_t
  inuse :: uint64_t

record MihomoLogEntry =
  log_timestamp_ms :: uint64_t
  level :: string
  payload :: string

subsection \<open>The dummy callbacks\<close>

text \<open>A pointer to a sample is \<open>None\<close> when it is \<^verbatim>\<open>NULL\<close>. The context pointer \<open>c\<close> is
  received and ignored.\<close>

definition cb_tx :: "(address \<Rightarrow> string) \<Rightarrow> MihomoTrafficSample option \<Rightarrow> address \<Rightarrow> stdout \<Rightarrow> stdout option" where
  "cb_tx P s c out =
     (case s of None \<Rightarrow> Some out
      | Some smp \<Rightarrow> OUT P (''NET:TX=%llu RX=%llu'' @ LINE) [Arg_ull (up smp), Arg_ull (down smp)] out)"

definition cb_mem :: "(address \<Rightarrow> string) \<Rightarrow> MihomoMemorySample option \<Rightarrow> address \<Rightarrow> stdout \<Rightarrow> stdout option" where
  "cb_mem P s c out =
     (case s of None \<Rightarrow> Some out
      | Some smp \<Rightarrow> OUT P (''MEM:USE=%llu'' @ LINE) [Arg_ull (inuse smp)] out)"

definition cb_log :: "(address \<Rightarrow> string) \<Rightarrow> MihomoLogEntry option \<Rightarrow> address \<Rightarrow> stdout \<Rightarrow> stdout option" where
  "cb_log P s c out =
     (case s of None \<Rightarrow> Some out
      | Some e \<Rightarrow> OUT P (''LOG:%s:%s'' @ LINE) [Arg_str (level e), Arg_str (payload e)] out)"

definition cb_state :: "(address \<Rightarrow> string) \<Rightarrow> MihomoCoreState \<Rightarrow> address \<Rightarrow> stdout \<Rightarrow> stdout option" where
  "cb_state P s c out = OUT P (''STATE:%d'' @ LINE) [Arg_int s] out"

subsection \<open>What the compiler and the loader decide\<close>

text \<open>
  The value of each \<^verbatim>\<open>sizeof\<close> is fixed by the compilation target, and the addresses of
  the four callbacks by the process image. Both are parameters of the unit.
\<close>

record target =
  sizeof_MihomoVersion :: size_t
  sizeof_MihomoTrafficSample :: size_t
  sizeof_MihomoMemorySample :: size_t
  sizeof_MihomoLogEntry :: size_t
  sizeof_MihomoConnection :: size_t
  sizeof_MihomoInitOptions :: size_t

record process =
  addr_cb_tx :: address
  addr_cb_mem :: address
  addr_cb_log :: address
  addr_cb_state :: address

subsection \<open>The compile-time size assertions\<close>

text \<open>
  \<^verbatim>\<open>#define STATIC_CHECK(expr) typedef char static_assertion_##__LINE__[(expr)?1:-1]\<close>

  An operand of \<^verbatim>\<open>##\<close> is not macro-expanded, so every use declares the same name
  \<^verbatim>\<open>static_assertion___LINE__\<close>, as an array of \<open>1\<close> or of \<open>-1\<close> characters.
\<close>

definition STATIC_CHECK :: "bool \<Rightarrow> string \<times> int" where
  "STATIC_CHECK expr = (''static_assertion___LINE__'', if expr then 1 else - 1)"

datatype compile_error = Negative_array_size | Typedef_redefinition

text \<open>A typedef of an array type needs a positive length; a name may be declared again
  only with the same type (the rule of C11).\<close>

fun declare_typedef :: "(string \<rightharpoonup> int) \<Rightarrow> string \<times> int \<Rightarrow> compile_error + (string \<rightharpoonup> int)" where
  "declare_typedef env (name, n) =
     (if n \<le> 0 then Inl Negative_array_size
      else case env name of
             None \<Rightarrow> Inr (env(name \<mapsto> n))
           | Some m \<Rightarrow> if m = n then Inr env else Inl Typedef_redefinition)"

fun declare_typedefs :: "(string \<rightharpoonup> int) \<Rightarrow> (string \<times> int) list \<Rightarrow> compile_error + (string \<rightharpoonup> int)" where
  "declare_typedefs env [] = Inr env"
| "declare_typedefs env (d # ds) =
     (case declare_typedef env d of Inl e \<Rightarrow> Inl e | Inr env' \<Rightarrow> declare_typedefs env' ds)"

definition static_assertions :: "target \<Rightarrow> (string \<times> int) list" where
  "static_assertions tg =
     [STATIC_CHECK (sizeof_MihomoVersion tg = 64),
      STATIC_CHECK (sizeof_MihomoTrafficSample tg = 24),
      STATIC_CHECK (sizeof_MihomoMemorySample tg = 16),
      STATIC_CHECK (sizeof_MihomoLogEntry tg = 536),
      STATIC_CHECK (sizeof_MihomoConnection tg = 592)]"

definition compile :: "target \<Rightarrow> compile_error + (string \<rightharpoonup> int)" where
  "compile tg = declare_typedefs Map.empty (static_assertions tg)"

subsection \<open>The driver\<close>

text \<open>The statement that prints the enum line, the four macros it names as parameters.\<close>

definition report_enum :: "(address \<Rightarrow> string) \<Rightarrow> c_int \<Rightarrow> c_int \<Rightarrow> c_int \<Rightarrow> c_int \<Rightarrow> stdout \<Rightarrow> stdout option" where
  "report_enum P ok init halt run out =
     OUT P (''ENUM:ok=%d init=%d halt=%d run=%d'' @ LINE)
       [Arg_int ok, Arg_int init, Arg_int halt, Arg_int run] out"

definition main :: "(address \<Rightarrow> string) \<Rightarrow> target \<Rightarrow> process \<Rightarrow> stdout \<Rightarrow> (stdout \<times> c_int) option" where
  "main P tg pr out0 = do {
     out1 \<leftarrow> OUT P (''MIHOMO:ABI'' @ LINE) [] out0;
     out2 \<leftarrow> OUT P (''SIZE:ver=%zu tx=%zu mem=%zu log=%zu conn=%zu opt=%zu'' @ LINE)
              [Arg_size (sizeof_MihomoVersion tg), Arg_size (sizeof_MihomoTrafficSample tg),
               Arg_size (sizeof_MihomoMemorySample tg), Arg_size (sizeof_MihomoLogEntry tg),
               Arg_size (sizeof_MihomoConnection tg), Arg_size (sizeof_MihomoInitOptions tg)] out1;
     out3 \<leftarrow> report_enum P MIHOMO_OK MIHOMO_ERR_INIT MIHOMO_STATE_STOPPED MIHOMO_STATE_RUNNING out2;
     out4 \<leftarrow> OUT P (''CBPTR:tx=%p mem=%p log=%p state=%p'' @ LINE)
              [Arg_ptr (addr_cb_tx pr), Arg_ptr (addr_cb_mem pr),
               Arg_ptr (addr_cb_log pr), Arg_ptr (addr_cb_state pr)] out3;
     out5 \<leftarrow> OUT P (''DECL:link'' @ LINE) [] out4;
     Some (out5, 0)
   }"

text \<open>
  Building the unit for a target and running the program once, on an empty output
  stream: \<open>Inl\<close> when the compiler rejects the unit (then there is no program to run),
  otherwise what \<^verbatim>\<open>main\<close> printed and returned.
\<close>

definition c_sanity_check ::
  "(address \<Rightarrow> string) \<Rightarrow> target \<Rightarrow> process \<Rightarrow> compile_error + (stdout \<times> c_int) option" where
  "c_sanity_check P tg pr =
     (case compile tg of Inl e \<Rightarrow> Inl e | Inr env \<Rightarrow> Inr (main P tg pr []))"

subsection \<open>Struct layout on concrete targets\<close>

text \<open>
  The usual layout rule of C compilers: each member is placed at the next multiple of
  its alignment, and the size of the struct is rounded up to the largest alignment of a
  member. It fixes the sizes on the targets that serve as examples below.
\<close>

datatype ctype = Char_array nat | Uint16 | Uint64 | Pointer | C_int

record data_model =
  align_uint64 :: nat
  size_pointer :: nat

fun size_of :: "data_model \<Rightarrow> ctype \<Rightarrow> nat" where
  "size_of dm (Char_array n) = n"
| "size_of dm Uint16 = 2"
| "size_of dm Uint64 = 8"
| "size_of dm Pointer = size_pointer dm"
| "size_of dm C_int = 4"

fun align_of :: "data_model \<Rightarrow> ctype \<Rightarrow> nat" where
  "align_of dm (Char_array n) = 1"
| "align_of dm Uint16 = 2"
| "align_of dm Uint64 = align_uint64 dm"
| "align_of dm Pointer = size_pointer dm"
| "align_of dm C_int = 4"

definition round_up :: "nat \<Rightarrow> nat \<Rightarrow> nat" where
  "round_up n a = ((n + a - 1) div a) * a"

fun place_members :: "data_model \<Rightarrow> ctype list \<Rightarrow> nat \<Rightarrow> nat" where
  "place_members dm [] off = off"
| "place_members dm (t # ts) off =
     place_members dm ts (round_up off (align_of dm t) + size_of dm t)"

definition struct_size :: "data_model \<Rightarrow> ctype list \<Rightarrow> nat" where
  "struct_size dm ts = round_up (place_members dm ts 0) (fold max (map (align_of dm) ts) 1)"

text \<open>The member lists of the six structs whose size the unit prints.\<close>

definition MihomoVersion :: "ctype list" where
  "MihomoVersion = [Char_array 64]"

definition MihomoTrafficSample :: "ctype list" where
  "MihomoTrafficSample = [Uint64, Uint64, Uint64]"

definition MihomoMemorySample :: "ctype list" where
  "MihomoMemorySample = [Uint64, Uint64]"

definition MihomoLogEntry :: "ctype list" where
  "MihomoLogEntry = [Uint64, Char_array 16, Char_array 512]"

definition MihomoConnection :: "ctype list" where
  "MihomoConnection = [Char_array 64, Char_array 256, Uint16, Char_array 256, Uint64]"

definition MihomoInitOptions :: "ctype list" where
  "MihomoInitOptions = [Pointer, Pointer, Pointer, Pointer, C_int]"

definition measured :: "data_model \<Rightarrow> target" where
  "measured dm =
     \<lparr>sizeof_MihomoVersion = struct_size dm MihomoVersion,
      sizeof_MihomoTrafficSample = struct_size dm MihomoTrafficSample,
      sizeof_MihomoMemorySample = struct_size dm MihomoMemorySample,
      sizeof_MihomoLogEntry = struct_size dm MihomoLogEntry,
      sizeof_MihomoConnection = struct_size dm MihomoConnection,
      sizeof_MihomoInitOptions = struct_size dm MihomoInitOptions\<rparr>"

text \<open>A 64-bit target with naturally aligned 8-byte integers, and a 32-bit target
  that aligns them to 4 bytes.\<close>

definition lp64 :: data_model where
  "lp64 = \<lparr>align_uint64 = 8, size_pointer = 8\<rparr>"

definition ilp32 :: data_model where
  "ilp32 = \<lparr>align_uint64 = 4, size_pointer = 4\<rparr>"

text \<open>A rendering of \<^verbatim>\<open>%p\<close> that C libraries use: \<^verbatim>\<open>0x\<close> and the address in
  hexadecimal.\<close>

function hex :: "nat \<Rightarrow> string" where
  "hex n = (if n < 16 then [digit n] else hex (n div 16) @ [digit (n mod 16)])"
  by pat_completeness auto
termination
  by (relation "measure id") auto

declare hex.simps [simp del]

definition hex_p :: "address \<Rightarrow> string" where
  "hex_p a = ''0x'' @ hex a"

definition loaded_image :: process where
  "loaded_image = \<lparr>addr_cb_tx = 0x100003d20, addr_cb_mem = 0x100003d60,
             addr_cb_log = 0x100003da0, addr_cb_state = 0x100003de0\<rparr>"

text \<open>The same image, loaded at another base address: every callback moves by the slide.\<close>

definition relocated :: "nat \<Rightarrow> process \<Rightarrow> process" where
  "relocated slide pr =
     \<lparr>addr_cb_tx = addr_cb_tx pr + slide, addr_cb_mem = addr_cb_mem pr + slide,
      addr_cb_log = addr_cb_log pr + slide, addr_cb_state = addr_cb_state pr + slide\<rparr>"

text \<open>A target whose padding rules add eight bytes to \<^verbatim>\<open>MihomoLogEntry\<close> and leave the
  other structs alone.\<close>

definition padded_log :: target where
  "padded_log = (measured lp64)\<lparr>sizeof_MihomoLogEntry := 544\<rparr>"

subsection \<open>Reading a report\<close>

text \<open>The lines of a text: every newline ends a line.\<close>

fun split_lines :: "string \<Rightarrow> string list" where
  "split_lines [] = []"
| "split_lines (c # cs) =
     (if c = CHR 0x0A then [] # split_lines cs
      else case split_lines cs of [] \<Rightarrow> [[c]] | l # ls \<Rightarrow> (c # l) # ls)"

text \<open>The fields of a report line \<^verbatim>\<open>TAG:k1=v1 k2=v2 ...\<close>, by position: the text after
  the first colon is cut at every space, and each piece at its first equals sign.\<close>

definition split_at :: "char \<Rightarrow> string \<Rightarrow> string \<times> string" where
  "split_at sep s = (takeWhile (\<lambda>c. c \<noteq> sep) s, drop 1 (dropWhile (\<lambda>c. c \<noteq> sep) s))"

fun split_words :: "string \<Rightarrow> string list" where
  "split_words [] = [[]]"
| "split_words (c # cs) =
     (if c = CHR '' '' then [] # split_words cs
      else case split_words cs of [] \<Rightarrow> [[c]] | w # ws \<Rightarrow> (c # w) # ws)"

definition key_values :: "string \<Rightarrow> (string \<times> string) list" where
  "key_values line = map (split_at CHR ''='') (split_words (snd (split_at CHR '':'' line)))"

definition separators :: "char set" where
  "separators = {CHR 0x0A, CHR '' '', CHR ''='', CHR '':''}"

section \<open>Supporting facts\<close>

subsection \<open>The characters of a printed number\<close>

lemma digit_decimal: "d < 10 \<Longrightarrow> digit d \<in> set ''0123456789''"
proof -
  assume "d < 10"
  then have "d = 0 \<or> d = 1 \<or> d = 2 \<or> d = 3 \<or> d = 4 \<or> d = 5 \<or> d = 6 \<or> d = 7 \<or> d = 8 \<or> d = 9"
    by arith
  then show ?thesis
    by (elim disjE) (simp_all add: digit_def)
qed

lemma dec_subset:
  assumes "\<And>d. d < 10 \<Longrightarrow> digit d \<in> S"
  shows "set (dec n) \<subseteq> S"
proof (induction n rule: dec.induct)
  case (1 n)
  show ?case
  proof (cases "n < 10")
    case True
    then show ?thesis
      using assms [of n] by (subst dec.simps) simp
  next
    case False
    then have "set (dec (n div 10)) \<subseteq> S"
      using "1" by simp
    moreover have "digit (n mod 10) \<in> S"
      by (rule assms) simp
    ultimately show ?thesis
      using False by (subst dec.simps) simp
  qed
qed

lemma fmt_d_subset:
  assumes "\<And>d. d < 10 \<Longrightarrow> digit d \<in> S" and "CHR ''-'' \<in> S"
  shows "set (fmt_d i) \<subseteq> S"
  using assms(2) dec_subset [of S, OF assms(1)]
  by (simp add: fmt_d_def)

lemma digit_no_separator: "d < 10 \<Longrightarrow> digit d \<in> - separators"
proof -
  assume "d < 10"
  then have "d = 0 \<or> d = 1 \<or> d = 2 \<or> d = 3 \<or> d = 4 \<or> d = 5 \<or> d = 6 \<or> d = 7 \<or> d = 8 \<or> d = 9"
    by arith
  then show ?thesis
    by (elim disjE) (simp_all add: digit_def separators_def)
qed

lemma dec_no_separator: "set (dec n) \<subseteq> - separators"
  using digit_no_separator by (rule dec_subset)

lemma fmt_d_no_separator: "set (fmt_d i) \<subseteq> - separators"
proof (rule fmt_d_subset)
  show "CHR ''-'' \<in> - separators"
    by (simp add: separators_def)
qed (rule digit_no_separator)

lemma dec_no_newline: "CHR 0x0A \<notin> set (dec n)"
  using dec_no_separator [of n] by (auto simp: separators_def)

lemma fmt_d_no_newline: "CHR 0x0A \<notin> set (fmt_d i)"
  using fmt_d_no_separator [of i] by (auto simp: separators_def)

lemma dec_no_space: "CHR '' '' \<notin> set (dec n)"
  using dec_no_separator [of n] by (auto simp: separators_def)

lemma fmt_d_no_space: "CHR '' '' \<notin> set (fmt_d i)"
  using fmt_d_no_separator [of i] by (auto simp: separators_def)

lemma split_lines_line:
  "CHR 0x0A \<notin> set l \<Longrightarrow> split_lines (l @ CHR 0x0A # rest) = l # split_lines rest"
  by (induction l) auto

lemma split_words_word:
  "CHR '' '' \<notin> set w \<Longrightarrow> split_words (w @ CHR '' '' # rest) = w # split_words rest"
  by (induction w) auto

lemma split_words_last: "CHR '' '' \<notin> set w \<Longrightarrow> split_words w = [w]"
  by (induction w) auto

lemma key_values_ENUM:
  "key_values (''ENUM:ok='' @ fmt_d a @ '' init='' @ fmt_d b @ '' halt='' @ fmt_d c
               @ '' run='' @ fmt_d d) =
   [(''ok'', fmt_d a), (''init'', fmt_d b), (''halt'', fmt_d c), (''run'', fmt_d d)]"
proof -
  have w1: "CHR '' '' \<notin> set (''ok='' @ fmt_d a)"
    and w2: "CHR '' '' \<notin> set (''init='' @ fmt_d b)"
    and w3: "CHR '' '' \<notin> set (''halt='' @ fmt_d c)"
    and w4: "CHR '' '' \<notin> set (''run='' @ fmt_d d)"
    by (simp_all add: fmt_d_no_space)
  have "snd (split_at CHR '':'' (''ENUM:ok='' @ fmt_d a @ '' init='' @ fmt_d b @ '' halt='' @ fmt_d c
               @ '' run='' @ fmt_d d)) =
        (''ok='' @ fmt_d a) @ CHR '' '' # (''init='' @ fmt_d b) @ CHR '' '' # (''halt='' @ fmt_d c)
               @ CHR '' '' # (''run='' @ fmt_d d)"
    by (simp add: split_at_def)
  then have "split_words (snd (split_at CHR '':'' (''ENUM:ok='' @ fmt_d a @ '' init='' @ fmt_d b
               @ '' halt='' @ fmt_d c @ '' run='' @ fmt_d d))) =
        [''ok='' @ fmt_d a, ''init='' @ fmt_d b, ''halt='' @ fmt_d c, ''run='' @ fmt_d d]"
    by (simp only: split_words_word [OF w1] split_words_word [OF w2] split_words_word [OF w3]
        split_words_last [OF w4])
  then show ?thesis
    by (simp add: key_values_def split_at_def)
qed

subsection \<open>What each \<^verbatim>\<open>printf\<close> call of the unit prints\<close>

lemma printf_ABI: "printf P (''MIHOMO:ABI'' @ LINE) [] = Some (''MIHOMO:ABI'' @ LINE)"
  by (simp add: printf_def LINE_def)

lemma printf_SIZE:
  "printf P (''SIZE:ver=%zu tx=%zu mem=%zu log=%zu conn=%zu opt=%zu'' @ LINE)
     [Arg_size a, Arg_size b, Arg_size c, Arg_size d, Arg_size e, Arg_size f] =
   Some (''SIZE:ver='' @ dec a @ '' tx='' @ dec b @ '' mem='' @ dec c @ '' log='' @ dec d
         @ '' conn='' @ dec e @ '' opt='' @ dec f @ LINE)"
  by (simp add: printf_def LINE_def)

lemma printf_ENUM:
  "printf P (''ENUM:ok=%d init=%d halt=%d run=%d'' @ LINE)
     [Arg_int a, Arg_int b, Arg_int c, Arg_int d] =
   Some (''ENUM:ok='' @ fmt_d a @ '' init='' @ fmt_d b @ '' halt='' @ fmt_d c
         @ '' run='' @ fmt_d d @ LINE)"
  by (simp add: printf_def LINE_def)

lemma printf_CBPTR:
  "printf P (''CBPTR:tx=%p mem=%p log=%p state=%p'' @ LINE)
     [Arg_ptr a, Arg_ptr b, Arg_ptr c, Arg_ptr d] =
   Some (''CBPTR:tx='' @ P a @ '' mem='' @ P b @ '' log='' @ P c @ '' state='' @ P d @ LINE)"
  by (simp add: printf_def LINE_def)

lemma printf_DECL: "printf P (''DECL:link'' @ LINE) [] = Some (''DECL:link'' @ LINE)"
  by (simp add: printf_def LINE_def)

lemma printf_NET:
  "printf P (''NET:TX=%llu RX=%llu'' @ LINE) [Arg_ull u, Arg_ull d] =
   Some (''NET:TX='' @ dec (unat u) @ '' RX='' @ dec (unat d) @ LINE)"
  by (simp add: printf_def LINE_def)

lemma printf_STATE:
  "printf P (''STATE:%d'' @ LINE) [Arg_int s] = Some (''STATE:'' @ fmt_d s @ LINE)"
  by (simp add: printf_def LINE_def)

lemma fmt_d_small: "fmt_d 0 = ''0''" "fmt_d 1 = ''1''" "fmt_d 2 = ''2''" "fmt_d 3 = ''3''" "fmt_d 4 = ''4''"
  by (simp_all add: fmt_d_def dec.simps digit_def)

lemma main_prints:
  "main P tg pr out =
   Some (out @ ''MIHOMO:ABI'' @ LINE
         @ ''SIZE:ver='' @ dec (sizeof_MihomoVersion tg)
         @ '' tx='' @ dec (sizeof_MihomoTrafficSample tg)
         @ '' mem='' @ dec (sizeof_MihomoMemorySample tg)
         @ '' log='' @ dec (sizeof_MihomoLogEntry tg)
         @ '' conn='' @ dec (sizeof_MihomoConnection tg)
         @ '' opt='' @ dec (sizeof_MihomoInitOptions tg) @ LINE
         @ ''ENUM:ok=0 init=1 halt=0 run=2'' @ LINE
         @ ''CBPTR:tx='' @ P (addr_cb_tx pr) @ '' mem='' @ P (addr_cb_mem pr)
         @ '' log='' @ P (addr_cb_log pr) @ '' state='' @ P (addr_cb_state pr) @ LINE
         @ ''DECL:link'' @ LINE, 0)"
  unfolding main_def report_enum_def OUT_def printf_ABI printf_SIZE printf_ENUM printf_CBPTR
    printf_DECL MIHOMO_OK_def MIHOMO_ERR_INIT_def MIHOMO_STATE_STOPPED_def
    MIHOMO_STATE_RUNNING_def fmt_d_small
  by simp

subsection \<open>When the compiler accepts the unit\<close>

lemma compile_accepts:
  "sizeof_MihomoVersion tg = 64 \<Longrightarrow> sizeof_MihomoTrafficSample tg = 24 \<Longrightarrow>
   sizeof_MihomoMemorySample tg = 16 \<Longrightarrow> sizeof_MihomoLogEntry tg = 536 \<Longrightarrow>
   sizeof_MihomoConnection tg = 592 \<Longrightarrow>
   compile tg = Inr [''static_assertion___LINE__'' \<mapsto> 1]"
  by (simp add: compile_def static_assertions_def STATIC_CHECK_def)

lemma compile_rejects:
  "\<not> (sizeof_MihomoVersion tg = 64 \<and> sizeof_MihomoTrafficSample tg = 24 \<and>
      sizeof_MihomoMemorySample tg = 16 \<and> sizeof_MihomoLogEntry tg = 536 \<and>
      sizeof_MihomoConnection tg = 592) \<Longrightarrow>
   compile tg = Inl Negative_array_size"
  by (auto simp: compile_def static_assertions_def STATIC_CHECK_def)

lemma measured_lp64:
  "measured lp64 =
     \<lparr>sizeof_MihomoVersion = 64, sizeof_MihomoTrafficSample = 24,
      sizeof_MihomoMemorySample = 16, sizeof_MihomoLogEntry = 536,
      sizeof_MihomoConnection = 592, sizeof_MihomoInitOptions = 40\<rparr>"
  by (simp add: measured_def lp64_def struct_size_def round_up_def MihomoVersion_def
      MihomoTrafficSample_def MihomoMemorySample_def MihomoLogEntry_def MihomoConnection_def
      MihomoInitOptions_def)

lemma measured_ilp32:
  "measured ilp32 =
     \<lparr>sizeof_MihomoVersion = 64, sizeof_MihomoTrafficSample = 24,
      sizeof_MihomoMemorySample = 16, sizeof_MihomoLogEntry = 536,
      sizeof_MihomoConnection = 588, sizeof_MihomoInitOptions = 20\<rparr>"
  by (simp add: measured_def ilp32_def struct_size_def round_up_def MihomoVersion_def
      MihomoTrafficSample_def MihomoMemorySample_def MihomoLogEntry_def MihomoConnection_def
      MihomoInitOptions_def)

lemma dec_examples:
  "dec 16 = ''16''" "dec 20 = ''20''" "dec 24 = ''24''" "dec 40 = ''40''" "dec 64 = ''64''"
  "dec 536 = ''536''" "dec 544 = ''544''" "dec 588 = ''588''" "dec 592 = ''592''"
  "dec 1000 = ''1000''" "dec 2000 = ''2000''"
  by (simp_all add: dec.simps digit_def)

lemma hex_p_loaded:
  "hex_p 0x100003d20 = ''0x100003d20''" "hex_p 0x100003d60 = ''0x100003d60''"
  "hex_p 0x100003da0 = ''0x100003da0''" "hex_p 0x100003de0 = ''0x100003de0''"
  "hex_p 0x100007d20 = ''0x100007d20''" "hex_p 0x100007d60 = ''0x100007d60''"
  "hex_p 0x100007da0 = ''0x100007da0''" "hex_p 0x100007de0 = ''0x100007de0''"
  by (simp_all add: hex_p_def hex.simps digit_def)

section \<open>The claims\<close>

text \<open>
  C1. Whenever the unit is accepted for a target, each of the five checked structs has
  its declared size there (64, 24, 16, 536 and 592 bytes), the run prints these five
  sizes on the sizes line, and \<^verbatim>\<open>main\<close> returns 0.
\<close>

theorem accepted_build_reports_declared_sizes:
  assumes "c_sanity_check P tg pr = Inr r"
  shows "sizeof_MihomoVersion tg = 64 \<and> sizeof_MihomoTrafficSample tg = 24
    \<and> sizeof_MihomoMemorySample tg = 16 \<and> sizeof_MihomoLogEntry tg = 536
    \<and> sizeof_MihomoConnection tg = 592
    \<and> (\<exists>out. r = Some (out, 0)
         \<and> take 2 (split_lines out) =
             [''MIHOMO:ABI'',
              ''SIZE:ver=64 tx=24 mem=16 log=536 conn=592 opt=''
                @ dec (sizeof_MihomoInitOptions tg)])"
proof -
  have accepted: "\<exists>env. compile tg = Inr env" and r: "r = main P tg pr []"
    using assms by (auto simp: c_sanity_check_def split: sum.splits)
  have sizes: "sizeof_MihomoVersion tg = 64 \<and> sizeof_MihomoTrafficSample tg = 24
    \<and> sizeof_MihomoMemorySample tg = 16 \<and> sizeof_MihomoLogEntry tg = 536
    \<and> sizeof_MihomoConnection tg = 592"
  proof (rule ccontr)
    assume "\<not> ?thesis"
    then have "compile tg = Inl Negative_array_size"
      by (rule compile_rejects)
    with accepted show False by simp
  qed
  define rest where "rest = ''ENUM:ok=0 init=1 halt=0 run=2'' @ LINE
         @ ''CBPTR:tx='' @ P (addr_cb_tx pr) @ '' mem='' @ P (addr_cb_mem pr)
         @ '' log='' @ P (addr_cb_log pr) @ '' state='' @ P (addr_cb_state pr) @ LINE
         @ ''DECL:link'' @ LINE"
  define l2 where "l2 = ''SIZE:ver=64 tx=24 mem=16 log=536 conn=592 opt=''
                @ dec (sizeof_MihomoInitOptions tg)"
  define out where "out = ''MIHOMO:ABI'' @ CHR 0x0A # l2 @ CHR 0x0A # rest"
  have "r = Some (out, 0)"
    unfolding r main_prints out_def l2_def rest_def using sizes
    by (simp add: dec_examples LINE_def)
  moreover have "CHR 0x0A \<notin> set l2"
    by (simp add: l2_def dec_no_newline)
  then have "split_lines out = ''MIHOMO:ABI'' # l2 # split_lines rest"
    unfolding out_def by (simp add: split_lines_line)
  then have "take 2 (split_lines out) = [''MIHOMO:ABI'', l2]"
    by simp
  ultimately show ?thesis
    using sizes unfolding l2_def by blast
qed

theorem accepted_build_reports_declared_sizes_witness:
  "c_sanity_check hex_p (measured lp64) loaded_image =
     Inr (Some (''MIHOMO:ABI\<newline>SIZE:ver=64 tx=24 mem=16 log=536 conn=592 opt=40\<newline>ENUM:ok=0 init=1 halt=0 run=2\<newline>CBPTR:tx=0x100003d20 mem=0x100003d60 log=0x100003da0 state=0x100003de0\<newline>DECL:link\<newline>'', 0))
   \<and> sizeof_MihomoVersion (measured lp64) = 64
   \<and> sizeof_MihomoTrafficSample (measured lp64) = 24
   \<and> sizeof_MihomoMemorySample (measured lp64) = 16
   \<and> sizeof_MihomoLogEntry (measured lp64) = 536
   \<and> sizeof_MihomoConnection (measured lp64) = 592"
proof -
  have run: "c_sanity_check hex_p (measured lp64) loaded_image =
     Inr (Some (''MIHOMO:ABI\<newline>SIZE:ver=64 tx=24 mem=16 log=536 conn=592 opt=40\<newline>ENUM:ok=0 init=1 halt=0 run=2\<newline>CBPTR:tx=0x100003d20 mem=0x100003d60 log=0x100003da0 state=0x100003de0\<newline>DECL:link\<newline>'', 0))"
    unfolding c_sanity_check_def main_prints
    by (simp add: compile_accepts measured_lp64 loaded_image_def dec_examples hex_p_loaded LINE_def)
  show ?thesis
    using run accepted_build_reports_declared_sizes [OF run] by simp
qed

text \<open>
  C2, as claimed: a failed verification gives a non-zero exit status. On a 32-bit
  target that aligns 8-byte integers to 4 bytes, \<^verbatim>\<open>MihomoConnection\<close> measures 588 bytes
  instead of 592. The size assertion then rejects the unit, so that no process exists
  and none exits with a non-zero status; the body of \<^verbatim>\<open>main\<close> itself, run for these
  sizes, would return 0.
\<close>

theorem no_exit_status_on_ilp32:
  "sizeof_MihomoConnection (measured ilp32) = 588
   \<and> c_sanity_check hex_p (measured ilp32) loaded_image = Inl Negative_array_size
   \<and> map_option snd (main hex_p (measured ilp32) loaded_image []) = Some 0"
  unfolding c_sanity_check_def main_prints
  by (simp add: compile_rejects measured_ilp32)

text \<open>
  C2, amended. The exit status of the driver is 0 in every run. A run exists exactly
  when all five size assertions hold; a failed size assertion is reported by the
  compiler, which rejects the unit, and not by an exit status. The constants and the
  callbacks are printed and are not verified.
\<close>

theorem exit_status_is_zero_or_build_rejected:
  "(case c_sanity_check P tg pr of
      Inl e \<Rightarrow> e = Negative_array_size
        \<and> \<not> (sizeof_MihomoVersion tg = 64 \<and> sizeof_MihomoTrafficSample tg = 24
             \<and> sizeof_MihomoMemorySample tg = 16 \<and> sizeof_MihomoLogEntry tg = 536
             \<and> sizeof_MihomoConnection tg = 592)
    | Inr r \<Rightarrow> map_option snd r = Some 0
        \<and> sizeof_MihomoVersion tg = 64 \<and> sizeof_MihomoTrafficSample tg = 24
        \<and> sizeof_MihomoMemorySample tg = 16 \<and> sizeof_MihomoLogEntry tg = 536
        \<and> sizeof_MihomoConnection tg = 592)"
proof (cases "sizeof_MihomoVersion tg = 64 \<and> sizeof_MihomoTrafficSample tg = 24
             \<and> sizeof_MihomoMemorySample tg = 16 \<and> sizeof_MihomoLogEntry tg = 536
             \<and> sizeof_MihomoConnection tg = 592")
  case True
  then have "compile tg = Inr [''static_assertion___LINE__'' \<mapsto> 1]"
    by (simp add: compile_accepts)
  then show ?thesis
    unfolding c_sanity_check_def main_prints using True by simp
next
  case False
  then have "compile tg = Inl Negative_array_size"
    by (rule compile_rejects)
  then show ?thesis
    unfolding c_sanity_check_def using False by simp
qed

text \<open>
  C3, as claimed: the enum line lists the value of every constant of the registry. It
  does not: on a 64-bit target the whole report is the text below, whose enum line has
  four entries, and the digit 3, the value of the runtime-error code, is nowhere on
  that line.
\<close>

theorem enum_line_omits_runtime_error:
  "main hex_p (measured lp64) loaded_image [] =
     Some (''MIHOMO:ABI\<newline>SIZE:ver=64 tx=24 mem=16 log=536 conn=592 opt=40\<newline>ENUM:ok=0 init=1 halt=0 run=2\<newline>CBPTR:tx=0x100003d20 mem=0x100003d60 log=0x100003da0 state=0x100003de0\<newline>DECL:link\<newline>'', 0)
   \<and> split_lines ''MIHOMO:ABI\<newline>SIZE:ver=64 tx=24 mem=16 log=536 conn=592 opt=40\<newline>ENUM:ok=0 init=1 halt=0 run=2\<newline>CBPTR:tx=0x100003d20 mem=0x100003d60 log=0x100003da0 state=0x100003de0\<newline>DECL:link\<newline>'' ! 2
       = ''ENUM:ok=0 init=1 halt=0 run=2''
   \<and> fmt_d MIHOMO_ERR_RUNTIME = ''3''
   \<and> CHR ''3'' \<notin> set ''ENUM:ok=0 init=1 halt=0 run=2''"
  unfolding main_prints
  by (simp add: measured_lp64 loaded_image_def dec_examples hex_p_loaded LINE_def
      MIHOMO_ERR_RUNTIME_def fmt_d_small)

text \<open>
  C3, amended. The enum line lists four constants of the registry, in the fixed order
  ok, init, halt, run: the ok and init-error result codes and the stopped and running
  states. On every target and for every process image it is the line
  \<^verbatim>\<open>ENUM:ok=0 init=1 halt=0 run=2\<close>, the third line of the report.
\<close>

theorem enum_line_lists_four_constants:
  "report_enum P MIHOMO_OK MIHOMO_ERR_INIT MIHOMO_STATE_STOPPED MIHOMO_STATE_RUNNING out =
     Some (out @ ''ENUM:ok=0 init=1 halt=0 run=2'' @ LINE)
   \<and> key_values ''ENUM:ok=0 init=1 halt=0 run=2'' =
       [(''ok'', fmt_d MIHOMO_OK), (''init'', fmt_d MIHOMO_ERR_INIT),
        (''halt'', fmt_d MIHOMO_STATE_STOPPED), (''run'', fmt_d MIHOMO_STATE_RUNNING)]
   \<and> (\<exists>rep. main P tg pr [] = Some (rep, 0)
         \<and> take 3 (split_lines rep) ! 2 = ''ENUM:ok=0 init=1 halt=0 run=2'')"
proof -
  have vals: "fmt_d MIHOMO_OK = ''0''" "fmt_d MIHOMO_ERR_INIT = ''1''"
    "fmt_d MIHOMO_STATE_STOPPED = ''0''" "fmt_d MIHOMO_STATE_RUNNING = ''2''"
    by (simp_all add: MIHOMO_OK_def MIHOMO_ERR_INIT_def MIHOMO_STATE_STOPPED_def
        MIHOMO_STATE_RUNNING_def fmt_d_small)
  have line: "report_enum P MIHOMO_OK MIHOMO_ERR_INIT MIHOMO_STATE_STOPPED MIHOMO_STATE_RUNNING out =
     Some (out @ ''ENUM:ok=0 init=1 halt=0 run=2'' @ LINE)"
    unfolding report_enum_def OUT_def printf_ENUM vals by simp
  have fields: "key_values ''ENUM:ok=0 init=1 halt=0 run=2'' =
       [(''ok'', fmt_d MIHOMO_OK), (''init'', fmt_d MIHOMO_ERR_INIT),
        (''halt'', fmt_d MIHOMO_STATE_STOPPED), (''run'', fmt_d MIHOMO_STATE_RUNNING)]"
    unfolding vals by (simp add: key_values_def split_at_def)
  define l2 where "l2 = ''SIZE:ver='' @ dec (sizeof_MihomoVersion tg)
           @ '' tx='' @ dec (sizeof_MihomoTrafficSample tg)
           @ '' mem='' @ dec (sizeof_MihomoMemorySample tg)
           @ '' log='' @ dec (sizeof_MihomoLogEntry tg)
           @ '' conn='' @ dec (sizeof_MihomoConnection tg)
           @ '' opt='' @ dec (sizeof_MihomoInitOptions tg)"
  define rest where "rest = ''CBPTR:tx='' @ P (addr_cb_tx pr) @ '' mem='' @ P (addr_cb_mem pr)
         @ '' log='' @ P (addr_cb_log pr) @ '' state='' @ P (addr_cb_state pr) @ LINE
         @ ''DECL:link'' @ LINE"
  define rep where "rep = ''MIHOMO:ABI'' @ CHR 0x0A # l2 @ CHR 0x0A
    # ''ENUM:ok=0 init=1 halt=0 run=2'' @ CHR 0x0A # rest"
  have n1: "CHR 0x0A \<notin> set ''MIHOMO:ABI''" and n3: "CHR 0x0A \<notin> set ''ENUM:ok=0 init=1 halt=0 run=2''"
    by simp_all
  have n2: "CHR 0x0A \<notin> set l2"
    by (simp add: l2_def dec_no_newline)
  have run: "main P tg pr [] = Some (rep, 0)"
    unfolding main_prints rep_def l2_def rest_def by (simp add: LINE_def)
  have "split_lines rep = ''MIHOMO:ABI'' # l2 # ''ENUM:ok=0 init=1 halt=0 run=2'' # split_lines rest"
    unfolding rep_def
    by (simp only: split_lines_line [OF n1] split_lines_line [OF n2] split_lines_line [OF n3])
  then have "take 3 (split_lines rep) ! 2 = ''ENUM:ok=0 init=1 halt=0 run=2''"
    by simp
  with run line fields show ?thesis
    by blast
qed

text \<open>
  C4, as claimed: when only \<^verbatim>\<open>MihomoLogEntry\<close> drifts, to 544 bytes, the run still
  executes, reports that entity as mismatched and the other four as matched, and exits
  with a non-zero status. On such a target the other four sizes match, but the unit is
  rejected with a negative array size: nothing runs, and nothing is reported. The body
  of \<^verbatim>\<open>main\<close>, run for these sizes, would print the measured sizes without any
  expected size or verdict and return 0.
\<close>

theorem log_entry_drift_stops_the_build:
  "sizeof_MihomoVersion padded_log = 64 \<and> sizeof_MihomoTrafficSample padded_log = 24
   \<and> sizeof_MihomoMemorySample padded_log = 16 \<and> sizeof_MihomoLogEntry padded_log = 544
   \<and> sizeof_MihomoConnection padded_log = 592
   \<and> c_sanity_check hex_p padded_log loaded_image = Inl Negative_array_size
   \<and> main hex_p padded_log loaded_image [] =
       Some (''MIHOMO:ABI\<newline>SIZE:ver=64 tx=24 mem=16 log=544 conn=592 opt=40\<newline>ENUM:ok=0 init=1 halt=0 run=2\<newline>CBPTR:tx=0x100003d20 mem=0x100003d60 log=0x100003da0 state=0x100003de0\<newline>DECL:link\<newline>'', 0)"
  unfolding c_sanity_check_def main_prints
  by (simp add: compile_rejects padded_log_def measured_lp64 loaded_image_def dec_examples
      hex_p_loaded LINE_def)

text \<open>
  C4, amended. If the actual size of an entity differs from its declared size, whatever
  the sizes of the other entities, the compiler rejects the unit at the size assertion
  (a typedef of an array of negative size): the check does not run, so it reports no
  entity, matched or mismatched, and has no exit status.
\<close>

theorem drifted_entity_rejects_build:
  assumes "sizeof_MihomoVersion tg \<noteq> 64 \<or> sizeof_MihomoTrafficSample tg \<noteq> 24
    \<or> sizeof_MihomoMemorySample tg \<noteq> 16 \<or> sizeof_MihomoLogEntry tg \<noteq> 536
    \<or> sizeof_MihomoConnection tg \<noteq> 592"
  shows "compile tg = Inl Negative_array_size
    \<and> c_sanity_check P tg pr = Inl Negative_array_size"
proof -
  have "compile tg = Inl Negative_array_size"
    using assms by (intro compile_rejects) blast
  then show ?thesis
    by (simp add: c_sanity_check_def)
qed

theorem drifted_entity_rejects_build_witness:
  "sizeof_MihomoLogEntry padded_log \<noteq> 536
   \<and> compile padded_log = Inl Negative_array_size
   \<and> c_sanity_check hex_p padded_log loaded_image = Inl Negative_array_size"
proof -
  have h: "sizeof_MihomoLogEntry padded_log \<noteq> 536"
    by (simp add: padded_log_def)
  then have "sizeof_MihomoVersion padded_log \<noteq> 64
    \<or> sizeof_MihomoTrafficSample padded_log \<noteq> 24
    \<or> sizeof_MihomoMemorySample padded_log \<noteq> 16
    \<or> sizeof_MihomoLogEntry padded_log \<noteq> 536
    \<or> sizeof_MihomoConnection padded_log \<noteq> 592"
    by blast
  from drifted_entity_rejects_build [OF this, of hex_p loaded_image] h show ?thesis
    by blast
qed

text \<open>
  C5. When no callback address is rendered with a newline in it, \<^verbatim>\<open>main\<close> prints exactly
  five lines, each ended by a newline, in this order: the marker \<^verbatim>\<open>MIHOMO:ABI\<close>, the
  sizes line (ver, tx, mem, log, conn, opt), the enum line, the callback-pointer line
  with the four addresses, and the marker \<^verbatim>\<open>DECL:link\<close>; and it prints nothing else.
\<close>

theorem report_has_five_lines:
  assumes "CHR 0x0A \<notin> set (P (addr_cb_tx pr))" and "CHR 0x0A \<notin> set (P (addr_cb_mem pr))"
    and "CHR 0x0A \<notin> set (P (addr_cb_log pr))" and "CHR 0x0A \<notin> set (P (addr_cb_state pr))"
  shows "\<exists>out. main P tg pr [] = Some (out, 0)
    \<and> split_lines out =
        [''MIHOMO:ABI'',
         ''SIZE:ver='' @ dec (sizeof_MihomoVersion tg)
           @ '' tx='' @ dec (sizeof_MihomoTrafficSample tg)
           @ '' mem='' @ dec (sizeof_MihomoMemorySample tg)
           @ '' log='' @ dec (sizeof_MihomoLogEntry tg)
           @ '' conn='' @ dec (sizeof_MihomoConnection tg)
           @ '' opt='' @ dec (sizeof_MihomoInitOptions tg),
         ''ENUM:ok=0 init=1 halt=0 run=2'',
         ''CBPTR:tx='' @ P (addr_cb_tx pr) @ '' mem='' @ P (addr_cb_mem pr)
           @ '' log='' @ P (addr_cb_log pr) @ '' state='' @ P (addr_cb_state pr),
         ''DECL:link'']
    \<and> out = concat (map (\<lambda>l. l @ LINE) (split_lines out))"
proof -
  define l2 where "l2 = ''SIZE:ver='' @ dec (sizeof_MihomoVersion tg)
           @ '' tx='' @ dec (sizeof_MihomoTrafficSample tg)
           @ '' mem='' @ dec (sizeof_MihomoMemorySample tg)
           @ '' log='' @ dec (sizeof_MihomoLogEntry tg)
           @ '' conn='' @ dec (sizeof_MihomoConnection tg)
           @ '' opt='' @ dec (sizeof_MihomoInitOptions tg)"
  define l4 where "l4 = ''CBPTR:tx='' @ P (addr_cb_tx pr) @ '' mem='' @ P (addr_cb_mem pr)
           @ '' log='' @ P (addr_cb_log pr) @ '' state='' @ P (addr_cb_state pr)"
  define out where "out = ''MIHOMO:ABI'' @ CHR 0x0A # l2 @ CHR 0x0A
    # ''ENUM:ok=0 init=1 halt=0 run=2'' @ CHR 0x0A # l4 @ CHR 0x0A # ''DECL:link'' @ CHR 0x0A # []"
  have n1: "CHR 0x0A \<notin> set ''MIHOMO:ABI''" and n3: "CHR 0x0A \<notin> set ''ENUM:ok=0 init=1 halt=0 run=2''"
    and n5: "CHR 0x0A \<notin> set ''DECL:link''"
    by simp_all
  have n2: "CHR 0x0A \<notin> set l2"
    by (simp add: l2_def dec_no_newline)
  have n4: "CHR 0x0A \<notin> set l4"
    using assms by (simp add: l4_def)
  have run: "main P tg pr [] = Some (out, 0)"
    unfolding main_prints out_def l2_def l4_def by (simp add: LINE_def)
  have lines: "split_lines out = [''MIHOMO:ABI'', l2, ''ENUM:ok=0 init=1 halt=0 run=2'', l4, ''DECL:link'']"
    unfolding out_def
    by (simp only: split_lines_line [OF n1] split_lines_line [OF n2] split_lines_line [OF n3]
        split_lines_line [OF n4] split_lines_line [OF n5] split_lines.simps)
  have "out = concat (map (\<lambda>l. l @ LINE) (split_lines out))"
    unfolding lines by (simp add: out_def LINE_def)
  with run lines show ?thesis
    unfolding l2_def l4_def by blast
qed

theorem report_has_five_lines_witness:
  "CHR 0x0A \<notin> set (hex_p (addr_cb_tx loaded_image)) \<and> CHR 0x0A \<notin> set (hex_p (addr_cb_mem loaded_image))
   \<and> CHR 0x0A \<notin> set (hex_p (addr_cb_log loaded_image)) \<and> CHR 0x0A \<notin> set (hex_p (addr_cb_state loaded_image))
   \<and> (\<exists>out. main hex_p (measured lp64) loaded_image [] = Some (out, 0)
        \<and> split_lines out =
            [''MIHOMO:ABI'',
             ''SIZE:ver=64 tx=24 mem=16 log=536 conn=592 opt=40'',
             ''ENUM:ok=0 init=1 halt=0 run=2'',
             ''CBPTR:tx=0x100003d20 mem=0x100003d60 log=0x100003da0 state=0x100003de0'',
             ''DECL:link''])"
proof -
  have h: "CHR 0x0A \<notin> set (hex_p (addr_cb_tx loaded_image))" "CHR 0x0A \<notin> set (hex_p (addr_cb_mem loaded_image))"
    "CHR 0x0A \<notin> set (hex_p (addr_cb_log loaded_image))" "CHR 0x0A \<notin> set (hex_p (addr_cb_state loaded_image))"
    by (simp_all add: loaded_image_def hex_p_loaded)
  have "\<exists>out. main hex_p (measured lp64) loaded_image [] = Some (out, 0)
        \<and> split_lines out =
            [''MIHOMO:ABI'',
             ''SIZE:ver=64 tx=24 mem=16 log=536 conn=592 opt=40'',
             ''ENUM:ok=0 init=1 halt=0 run=2'',
             ''CBPTR:tx=0x100003d20 mem=0x100003d60 log=0x100003da0 state=0x100003de0'',
             ''DECL:link'']
        \<and> out = concat (map (\<lambda>l. l @ LINE) (split_lines out))"
    using report_has_five_lines [OF h, of "measured lp64"]
    by (simp add: measured_lp64 loaded_image_def hex_p_loaded dec_examples)
  then have "\<exists>out. main hex_p (measured lp64) loaded_image [] = Some (out, 0)
        \<and> split_lines out =
            [''MIHOMO:ABI'',
             ''SIZE:ver=64 tx=24 mem=16 log=536 conn=592 opt=40'',
             ''ENUM:ok=0 init=1 halt=0 run=2'',
             ''CBPTR:tx=0x100003d20 mem=0x100003d60 log=0x100003da0 state=0x100003de0'',
             ''DECL:link'']"
    by blast
  with h show ?thesis
    by blast
qed

text \<open>
  C6. Whatever the values of the four constants, the enum line names them in the
  order ok, init, halt, run (the ok and init-error result codes, then the stopped and
  running states), so that a reader of the line finds each value by its position.
\<close>

theorem enum_line_order_fixed:
  "report_enum P a b c d out =
     Some (out @ ''ENUM:ok='' @ fmt_d a @ '' init='' @ fmt_d b @ '' halt='' @ fmt_d c
           @ '' run='' @ fmt_d d @ LINE)
   \<and> key_values (''ENUM:ok='' @ fmt_d a @ '' init='' @ fmt_d b @ '' halt='' @ fmt_d c
                  @ '' run='' @ fmt_d d) =
     [(''ok'', fmt_d a), (''init'', fmt_d b), (''halt'', fmt_d c), (''run'', fmt_d d)]"
  unfolding report_enum_def OUT_def printf_ENUM key_values_ENUM by simp

text \<open>
  C7. Called with a non-null sample whose upload counter is 1000 and whose download
  counter is 2000, the traffic callback appends exactly one line to the output, the
  line \<^verbatim>\<open>NET:TX=1000 RX=2000\<close>, whatever the timestamp, the context pointer and the
  output written before.
\<close>

theorem cb_tx_renders_sample:
  "cb_tx P (Some \<lparr>tx_timestamp_ms = t, up = 1000, down = 2000\<rparr>) c out =
     Some (out @ ''NET:TX=1000 RX=2000'' @ LINE)
   \<and> split_lines (''NET:TX=1000 RX=2000'' @ LINE) = [''NET:TX=1000 RX=2000'']"
proof
  show "cb_tx P (Some \<lparr>tx_timestamp_ms = t, up = 1000, down = 2000\<rparr>) c out =
     Some (out @ ''NET:TX=1000 RX=2000'' @ LINE)"
    unfolding cb_tx_def OUT_def printf_NET by (simp add: dec_examples)
  show "split_lines (''NET:TX=1000 RX=2000'' @ LINE) = [''NET:TX=1000 RX=2000'']"
    by (simp add: LINE_def)
qed

text \<open>
  C8, as claimed: two runs print byte-identical reports, the callback-pointer line
  included. The report contains the addresses of the callbacks, which the program does
  not choose: the same build, loaded once at its linked addresses and once 0x4000 bytes
  higher, prints two different reports.
\<close>

theorem report_differs_between_load_addresses:
  "main hex_p (measured lp64) loaded_image [] \<noteq> main hex_p (measured lp64) (relocated 0x4000 loaded_image) []"
  unfolding main_prints
  by (simp add: relocated_def loaded_image_def hex_p_loaded)

text \<open>
  C8, amended. The report of a build is a fixed text, in which only the callback-pointer
  line depends on the run: it reads no input, and two runs of the same build print
  byte-identical reports exactly when the four callback addresses are rendered alike
  in both, which the loader decides and the program does not.
\<close>

theorem report_equal_iff_callback_line_equal:
  "(\<exists>before after. \<forall>pr.
      main P tg pr out =
        Some (before @ ''CBPTR:tx='' @ P (addr_cb_tx pr) @ '' mem='' @ P (addr_cb_mem pr)
              @ '' log='' @ P (addr_cb_log pr) @ '' state='' @ P (addr_cb_state pr) @ after, 0))
   \<and> (main P tg pr1 out = main P tg pr2 out) =
       (P (addr_cb_tx pr1) @ '' mem='' @ P (addr_cb_mem pr1) @ '' log='' @ P (addr_cb_log pr1)
          @ '' state='' @ P (addr_cb_state pr1) =
        P (addr_cb_tx pr2) @ '' mem='' @ P (addr_cb_mem pr2) @ '' log='' @ P (addr_cb_log pr2)
          @ '' state='' @ P (addr_cb_state pr2))"
proof
  define before where "before = out @ ''MIHOMO:ABI'' @ LINE
         @ ''SIZE:ver='' @ dec (sizeof_MihomoVersion tg)
         @ '' tx='' @ dec (sizeof_MihomoTrafficSample tg)
         @ '' mem='' @ dec (sizeof_MihomoMemorySample tg)
         @ '' log='' @ dec (sizeof_MihomoLogEntry tg)
         @ '' conn='' @ dec (sizeof_MihomoConnection tg)
         @ '' opt='' @ dec (sizeof_MihomoInitOptions tg) @ LINE
         @ ''ENUM:ok=0 init=1 halt=0 run=2'' @ LINE"
  define after where "after = LINE @ ''DECL:link'' @ LINE"
  have "\<forall>pr. main P tg pr out =
        Some (before @ ''CBPTR:tx='' @ P (addr_cb_tx pr) @ '' mem='' @ P (addr_cb_mem pr)
              @ '' log='' @ P (addr_cb_log pr) @ '' state='' @ P (addr_cb_state pr) @ after, 0)"
    unfolding main_prints before_def after_def by simp
  then show "\<exists>before after. \<forall>pr.
      main P tg pr out =
        Some (before @ ''CBPTR:tx='' @ P (addr_cb_tx pr) @ '' mem='' @ P (addr_cb_mem pr)
              @ '' log='' @ P (addr_cb_log pr) @ '' state='' @ P (addr_cb_state pr) @ after, 0)"
    by blast
  show "(main P tg pr1 out = main P tg pr2 out) =
       (P (addr_cb_tx pr1) @ '' mem='' @ P (addr_cb_mem pr1) @ '' log='' @ P (addr_cb_log pr1)
          @ '' state='' @ P (addr_cb_state pr1) =
        P (addr_cb_tx pr2) @ '' mem='' @ P (addr_cb_mem pr2) @ '' log='' @ P (addr_cb_log pr2)
          @ '' state='' @ P (addr_cb_state pr2))"
    unfolding main_prints by simp
qed

text \<open>
  C9. The traffic, memory and log callbacks leave the output untouched when the sample
  pointer is null. The state callback appends one line \<^verbatim>\<open>STATE:\<close> followed by the
  decimal state for every value of the integer it receives, for instance for the
  values 1 and -1, which are no state of the interface.
\<close>

theorem null_samples_print_nothing:
  "cb_tx P None c out = Some out
   \<and> cb_mem P None c out = Some out
   \<and> cb_log P None c out = Some out
   \<and> cb_state P s c out = Some (out @ ''STATE:'' @ fmt_d s @ LINE)
   \<and> split_lines (''STATE:'' @ fmt_d s @ LINE) = [''STATE:'' @ fmt_d s]
   \<and> cb_state P 1 c out = Some (out @ ''STATE:1'' @ LINE)
   \<and> cb_state P (- 1) c out = Some (out @ ''STATE:-1'' @ LINE)"
proof -
  have state: "cb_state P x c out = Some (out @ ''STATE:'' @ fmt_d x @ LINE)" for x
    unfolding cb_state_def OUT_def printf_STATE by simp
  have "CHR 0x0A \<notin> set (''STATE:'' @ fmt_d s)"
    by (simp add: fmt_d_no_newline)
  then have one_line: "split_lines (''STATE:'' @ fmt_d s @ LINE) = [''STATE:'' @ fmt_d s]"
    using split_lines_line [of "''STATE:'' @ fmt_d s" "[]"] by (simp add: LINE_def)
  have minus: "fmt_d (- 1) = ''-1''"
    by (simp add: fmt_d_def dec.simps digit_def)
  show ?thesis
    using state [of s] state [of 1] state [of "- 1"] one_line
    by (simp add: cb_tx_def cb_mem_def cb_log_def fmt_d_small minus)
qed

text \<open>
  C10. The result codes are ok = 0, init error = 1, invalid argument = 2, runtime
  error = 3 and not initialized = 4, consecutive from zero; the lifecycle states are
  stopped = 0 and running = 2. No state has the value 1, and the stopped state is
  numerically equal to the ok result code.
\<close>

theorem constant_values:
  "map sint [MIHOMO_OK, MIHOMO_ERR_INIT, MIHOMO_ERR_INVALID_ARG, MIHOMO_ERR_RUNTIME,
             MIHOMO_ERR_NOT_INITIALIZED] = [0, 1, 2, 3, 4]
   \<and> map sint [MIHOMO_STATE_STOPPED, MIHOMO_STATE_RUNNING] = [0, 2]
   \<and> 1 \<notin> {MIHOMO_STATE_STOPPED, MIHOMO_STATE_RUNNING}
   \<and> MIHOMO_STATE_STOPPED = MIHOMO_OK"
  by (simp add: MIHOMO_OK_def MIHOMO_ERR_INIT_def MIHOMO_ERR_INVALID_ARG_def
      MIHOMO_ERR_RUNTIME_def MIHOMO_ERR_NOT_INITIALIZED_def MIHOMO_STATE_STOPPED_def
      MIHOMO_STATE_RUNNING_def)

end
